theory Spec2Isabelle
  imports Complex_Main "HOL-Library.Word"
begin

unbundle bit_operations_syntax

section \<open>The search driver of UCTSearch.cpp\<close>

text \<open>
  An embedding of \<^verbatim>\<open>src/UCTSearch.cpp\<close>: the constructor, the simulation
  recursion \<^verbatim>\<open>play_simulation\<close>, the resignation test \<^verbatim>\<open>should_resign\<close>, the
  move chooser \<^verbatim>\<open>get_best_move\<close>, \<^verbatim>\<open>set_gamestate\<close>, the two limit setters, the
  body of the simulation loops, and the parts of \<^verbatim>\<open>think\<close> and \<^verbatim>\<open>ponder\<close>
  that run before their loops.

  The board, the tree node, the transposition table, the evaluator and the
  headers with the constants are other modules. What the driver reads of
  them is a field of a record here; what it calls is a field of the record
  \<open>env\<close>, typed so that a call can change only what the specification
  says it changes. The model is sequential: one thread runs one simulation at
  a time. C++ \<^verbatim>\<open>float\<close> is \<open>real\<close>.
\<close>

subsection \<open>Game state\<close>

datatype color = BLACK | WHITE

text \<open>
  The attributes of \<^verbatim>\<open>GameState\<close> that the driver reads. Everything else in it
  (stones, history, clock, time control) is \<open>rest\<close>.
\<close>

record 'b GameState =
  get_to_move :: color
  get_hash :: "64 word"
  get_komi :: real
  get_handicap :: int
  get_movenum :: nat
  get_last_move :: int
  get_passes :: nat
  get_boardsize :: nat
  rest :: 'b

subsection \<open>Tree nodes\<close>

text \<open>
  Per-node state as the specification lists it: the move that led to the node,
  the prior probability, the network value, the visit count, the value sum,
  the virtual-loss counter and the flag that \<^verbatim>\<open>invalidate\<close> clears.
\<close>

record node_data =
  m_move :: int
  m_score :: real
  m_net_eval :: real
  m_visits :: int
  m_blackevals :: real
  m_virtual_loss :: int
  m_valid :: bool

datatype UCTNode = UCTNode (data: node_data) (get_children: "UCTNode list")

text \<open>
  \<^verbatim>\<open>SearchResult{}\<close> is the invalid result; \<^verbatim>\<open>eval()\<close> is read only behind
  \<^verbatim>\<open>valid()\<close> (line 106).
\<close>

datatype SearchResult = Invalid | Valid (eval: real)

fun valid :: "SearchResult \<Rightarrow> bool" where
  "valid Invalid = False"
| "valid (Valid e) = True"

text \<open>
  The methods that \<^verbatim>\<open>play_simulation\<close> invokes on tree nodes. A simulation
  records each invocation with the path (child indices) from its argument node
  to the receiver.
\<close>

datatype call =
  VirtualLoss | VirtualLossUndo | CreateChildren | EvalState
  | UctSelectChild | Invalidate | Update

type_synonym event = "nat list \<times> call"

subsection \<open>The other modules\<close>

record ('b, 't) env =
  \<comment> \<open>constants of FastBoard.h and UCTSearch.h\<close>
  PASS :: int
  RESIGN :: int
  NOPASS :: int
  NORESIGN :: int
  MAX_TREE_SIZE :: int
  VIRTUAL_LOSS_COUNT :: int
  limit_max :: int
  \<comment> \<open>configuration (GTP.h)\<close>
  cfg_max_playouts :: int
  cfg_max_visits :: int
  cfg_resignpct :: int
  cfg_random_cnt :: int
  cfg_dumbpass :: bool
  cfg_noise :: bool
  \<comment> \<open>GameState\<close>
  play_move :: "int \<Rightarrow> 'b GameState \<Rightarrow> 'b GameState"
  play_pass :: "'b GameState \<Rightarrow> 'b GameState"
  superko :: "'b GameState \<Rightarrow> bool"
  final_score :: "'b GameState \<Rightarrow> real"
  start_clock :: "color \<Rightarrow> 'b GameState \<Rightarrow> 'b GameState"
  set_timecontrol_boardsize :: "'b GameState \<Rightarrow> 'b GameState"
  \<comment> \<open>SearchResult::from_score: the evaluation given to a final score\<close>
  score_eval :: "real \<Rightarrow> real"
  \<comment> \<open>UCTNode and the evaluator behind it\<close>
  evaluate :: "'b GameState \<Rightarrow> UCTNode \<Rightarrow> (real \<times> UCTNode list) option"
  eval_state :: "UCTNode \<Rightarrow> 'b GameState \<Rightarrow> real"
  select :: "color \<Rightarrow> UCTNode \<Rightarrow> nat option"
  get_eval :: "color \<Rightarrow> UCTNode \<Rightarrow> real"
  sort_children :: "color \<Rightarrow> UCTNode list \<Rightarrow> UCTNode list"
  randomize_first_proportionally :: "UCTNode list \<Rightarrow> UCTNode list"
  get_nopass_child :: "'b GameState \<Rightarrow> UCTNode \<Rightarrow> UCTNode option"
  find_new_root :: "'b GameState \<Rightarrow> 'b GameState \<Rightarrow> UCTNode \<Rightarrow> UCTNode \<times> 'b GameState"
  count_nodes :: "UCTNode \<Rightarrow> int"
  kill_superkos :: "'b GameState \<Rightarrow> UCTNode \<Rightarrow> UCTNode"
  dirichlet_noise :: "real \<Rightarrow> real \<Rightarrow> UCTNode \<Rightarrow> UCTNode"
  \<comment> \<open>TTable\<close>
  tt_sync :: "'t \<Rightarrow> 64 word \<Rightarrow> real \<Rightarrow> int \<times> real \<Rightarrow> int \<times> real"
  tt_update :: "'t \<Rightarrow> 64 word \<Rightarrow> real \<Rightarrow> int \<times> real \<Rightarrow> 't"

subsection \<open>Node operations\<close>

definition has_children :: "UCTNode \<Rightarrow> bool" where
  "has_children n = (get_children n \<noteq> [])"

definition get_move :: "UCTNode \<Rightarrow> int" where
  "get_move n = m_move (data n)"

definition get_visits :: "UCTNode \<Rightarrow> int" where
  "get_visits n = m_visits (data n)"

text \<open>
  Modelled from the spec: the constructor \<^verbatim>\<open>UCTNode(vertex, score, init_eval)\<close> is
  not in the source file. A new node has the given move, prior and value, no
  visit, no virtual loss and no child, and is not invalidated.
\<close>

definition new_node :: "int \<Rightarrow> real \<Rightarrow> real \<Rightarrow> UCTNode" where
  "new_node vertex score init_eval =
     UCTNode \<lparr>m_move = vertex, m_score = score, m_net_eval = init_eval, m_visits = 0,
              m_blackevals = 0, m_virtual_loss = 0, m_valid = True\<rparr> []"

text \<open>
  Modelled from the spec: \<^verbatim>\<open>UCTNode::first_visit\<close> is not in the source file;
  the specification reads it as "visit count is zero".
\<close>

definition first_visit :: "UCTNode \<Rightarrow> bool" where
  "first_visit n = (get_visits n = 0)"

text \<open>
  Modelled from the spec: \<^verbatim>\<open>UCTNode::get_first_child\<close> is not in the source
  file; the null pointer that line 226 tests for is \<open>None\<close>.
\<close>

definition get_first_child :: "UCTNode \<Rightarrow> UCTNode option" where
  "get_first_child n = (case get_children n of [] \<Rightarrow> None | c # cs \<Rightarrow> Some c)"

text \<open>
  Modelled from the spec: \<^verbatim>\<open>UCTNode::virtual_loss\<close> and
  \<^verbatim>\<open>UCTNode::virtual_loss_undo\<close> are not in the source file. The
  specification has a virtual-loss counter per node, a transient penalty
  applied on descent and undone on return; the size of the penalty is
  \<open>VIRTUAL_LOSS_COUNT\<close>.
\<close>

definition virtual_loss :: "('b, 't) env \<Rightarrow> UCTNode \<Rightarrow> UCTNode" where
  "virtual_loss env n =
     UCTNode (data n\<lparr>m_virtual_loss := m_virtual_loss (data n) + VIRTUAL_LOSS_COUNT env\<rparr>)
       (get_children n)"

definition virtual_loss_undo :: "('b, 't) env \<Rightarrow> UCTNode \<Rightarrow> UCTNode" where
  "virtual_loss_undo env n =
     UCTNode (data n\<lparr>m_virtual_loss := m_virtual_loss (data n) - VIRTUAL_LOSS_COUNT env\<rparr>)
       (get_children n)"

text \<open>
  Modelled from the spec: \<^verbatim>\<open>UCTNode::update\<close> is not in the source file. It
  accumulates a backup: one more visit, and the evaluation added to the value
  sum.
\<close>

definition update :: "UCTNode \<Rightarrow> real \<Rightarrow> UCTNode" where
  "update n e =
     UCTNode (data n\<lparr>m_visits := m_visits (data n) + 1,
                      m_blackevals := m_blackevals (data n) + e\<rparr>)
       (get_children n)"

text \<open>
  Modelled from the spec: \<^verbatim>\<open>UCTNode::invalidate\<close> is not in the source file. It
  marks the node invalidated.
\<close>

definition invalidate :: "UCTNode \<Rightarrow> UCTNode" where
  "invalidate n = UCTNode (data n\<lparr>m_valid := False\<rparr>) (get_children n)"

text \<open>
  Modelled from the spec: \<^verbatim>\<open>UCTNode::create_children\<close> is not in the source
  file. It expands the node using the evaluator, reports the evaluation and
  adds the new children to the node count; a call that does not succeed
  returns without expanding. The evaluator is \<open>evaluate env\<close>; the result is
  (success, node, node count, eval), the last three being what the C++ call
  leaves in the receiver and in its two reference arguments.
\<close>

definition create_children ::
  "('b, 't) env \<Rightarrow> int \<Rightarrow> 'b GameState \<Rightarrow> real \<Rightarrow> UCTNode \<Rightarrow> bool \<times> UCTNode \<times> int \<times> real" where
  "create_children env nodecount state eval_in n =
     (case evaluate env state n of
        None \<Rightarrow> (False, n, nodecount, eval_in)
      | Some (e, cs) \<Rightarrow>
          (True, UCTNode (data n\<lparr>m_net_eval := e\<rparr>) cs, nodecount + int (length cs), e))"

text \<open>
  Modelled from the spec: \<^verbatim>\<open>UCTNode::uct_select_child\<close> is not in the source
  file. It returns one of the node's children or the null pointer; the policy
  is \<open>select env\<close>, and a choice that is not the index of a child is the null
  pointer.
\<close>

definition uct_select_child :: "('b, 't) env \<Rightarrow> color \<Rightarrow> UCTNode \<Rightarrow> nat option" where
  "uct_select_child env c n =
     (case select env c n of
        None \<Rightarrow> None
      | Some i \<Rightarrow> (if i < length (get_children n) then Some i else None))"

text \<open>
  Modelled from the spec: \<^verbatim>\<open>TTable::sync\<close> and \<^verbatim>\<open>TTable::update\<close> are not in the
  source file. \<^verbatim>\<open>sync\<close> lets the node adopt cached visit and value statistics
  for the position; \<^verbatim>\<open>update\<close> writes the node's statistics back to the table.
\<close>

definition TT_sync :: "('b, 't) env \<Rightarrow> 't \<Rightarrow> 64 word \<Rightarrow> real \<Rightarrow> UCTNode \<Rightarrow> UCTNode" where
  "TT_sync env tt h k n =
     (case tt_sync env tt h k (m_visits (data n), m_blackevals (data n)) of
        (v, e) \<Rightarrow> UCTNode (data n\<lparr>m_visits := v, m_blackevals := e\<rparr>) (get_children n))"

definition TT_update :: "('b, 't) env \<Rightarrow> 't \<Rightarrow> 64 word \<Rightarrow> real \<Rightarrow> UCTNode \<Rightarrow> 't" where
  "TT_update env tt h k n = tt_update env tt h k (m_visits (data n), m_blackevals (data n))"

text \<open>
  Modelled from the spec: \<^verbatim>\<open>SearchResult\<close> is declared in UCTSearch.h, which is
  not among the sources. Both constructors give a valid result.
\<close>

definition from_eval :: "real \<Rightarrow> SearchResult" where
  "from_eval e = Valid e"

definition from_score :: "('b, 't) env \<Rightarrow> real \<Rightarrow> SearchResult" where
  "from_score env board_score = Valid (score_eval env board_score)"

subsection \<open>The search object\<close>

text \<open>
  The members of \<^verbatim>\<open>UCTSearch\<close> that the source file reads and writes, and the
  process-wide transposition table \<^verbatim>\<open>TTable::get_TT()\<close>.
\<close>

record ('b, 't) UCTSearch =
  m_rootstate :: "'b GameState"
  m_root :: UCTNode
  m_nodes :: int
  m_playouts :: int
  m_run :: bool
  m_maxplayouts :: int
  m_maxvisits :: int
  ttable :: 't

subsection \<open>set_gamestate (lines 48-57)\<close>

text \<open>
  \<^verbatim>\<open>find_new_root(g, m_rootstate)\<close> receives the remembered state by reference
  and returns the new root; the pair is the new root and what the call leaves
  in \<^verbatim>\<open>m_rootstate\<close>.
\<close>

definition set_gamestate ::
  "('b, 't) env \<Rightarrow> 'b GameState \<Rightarrow> ('b, 't) UCTSearch \<Rightarrow> ('b, 't) UCTSearch" where
  "set_gamestate env g s =
     (let s1 = s\<lparr>m_playouts := 0\<rparr>;
          s2 = (if get_komi (m_rootstate s1) \<noteq> get_komi g
                   \<or> get_hash (m_rootstate s1) \<noteq> get_hash g
                then (case find_new_root env g (m_rootstate s1) (m_root s1) of
                        (r, st) \<Rightarrow> s1\<lparr>m_root := r, m_rootstate := st\<rparr>)
                else s1)
      in s2\<lparr>m_nodes := count_nodes env (m_root s2)\<rparr>)"

subsection \<open>set_playout_limit and set_visit_limit (lines 501-521)\<close>

text \<open>
  \<open>limit_max env\<close> is \<^verbatim>\<open>std::numeric_limits<decltype(m_maxplayouts)>::max()\<close>;
  the type of the two caps is declared in UCTSearch.h. The argument is taken to
  be representable in that type, so that the assignment keeps its value.
\<close>

definition set_playout_limit ::
  "('b, 't) env \<Rightarrow> int \<Rightarrow> ('b, 't) UCTSearch \<Rightarrow> ('b, 't) UCTSearch" where
  "set_playout_limit env playouts s =
     (if playouts = 0 then s\<lparr>m_maxplayouts := limit_max env\<rparr>
      else s\<lparr>m_maxplayouts := playouts\<rparr>)"

definition set_visit_limit ::
  "('b, 't) env \<Rightarrow> int \<Rightarrow> ('b, 't) UCTSearch \<Rightarrow> ('b, 't) UCTSearch" where
  "set_visit_limit env visits s =
     (if visits = 0 then s\<lparr>m_maxvisits := limit_max env\<rparr>
      else s\<lparr>m_maxvisits := visits\<rparr>)"

subsection \<open>The constructor (lines 42-46)\<close>

text \<open>
  The argument is the object with the members as their declarations in
  UCTSearch.h initialise them.
\<close>

definition UCTSearch_new ::
  "('b, 't) env \<Rightarrow> ('b, 't) UCTSearch \<Rightarrow> ('b, 't) UCTSearch" where
  "UCTSearch_new env s =
     (let s1 = set_playout_limit env (cfg_max_playouts env) s;
          s2 = set_visit_limit env (cfg_max_visits env) s1
      in s2\<lparr>m_root := new_node (PASS env) 0 0.5\<rparr>)"

subsection \<open>should_resign (lines 154-208)\<close>

text \<open>
  \<^verbatim>\<open>board_squares\<close>, \<^verbatim>\<open>move_threshold\<close> and \<^verbatim>\<open>movenum\<close> are \<^verbatim>\<open>size_t\<close>; the
  division by 4 is the integer one.
\<close>

definition should_resign ::
  "('b, 't) env \<Rightarrow> ('b, 't) UCTSearch \<Rightarrow> int \<Rightarrow> real \<Rightarrow> bool" where
  "should_resign env s passflag bestscore =
     (if passflag AND NORESIGN env \<noteq> 0 then False
      else if cfg_resignpct env = 0 then False
      else
        (let visits = get_visits (m_root s)
         in if visits < min 500 (cfg_max_playouts env) then False
            else
              (let board_squares = get_boardsize (m_rootstate s) * get_boardsize (m_rootstate s);
                   move_threshold = board_squares div 4;
                   movenum = get_movenum (m_rootstate s)
               in if movenum \<le> move_threshold then False
                  else
                    (let color = get_to_move (m_rootstate s);
                         is_default_cfg_resign = (cfg_resignpct env < 0);
                         resign_threshold =
                           0.01 * (if is_default_cfg_resign then 10
                                   else real_of_int (cfg_resignpct env))
                     in if bestscore > resign_threshold then False
                        else if get_handicap (m_rootstate s) > 0 \<and> color = WHITE
                                \<and> is_default_cfg_resign then
                          (let handicap_resign_threshold =
                                 resign_threshold
                                   / real_of_int (1 + get_handicap (m_rootstate s));
                               blend_ratio =
                                 min 1 (real movenum / (0.6 * real board_squares));
                               blended_resign_threshold =
                                 blend_ratio * resign_threshold
                                   + (1 - blend_ratio) * handicap_resign_threshold
                           in if bestscore > blended_resign_threshold then False
                              else True)
                        else True))))"

subsection \<open>get_best_move (lines 210-322)\<close>

text \<open>
  The result is the returned move and the search object with the root's
  children reordered. Line 223 reads through \<^verbatim>\<open>get_first_child()\<close> before
  line 226 tests it for null: with no child the read is undefined, here
  \<open>None\<close>. The \<^verbatim>\<open>myprintf\<close> lines are left out.
\<close>

definition get_best_move ::
  "('b, 't) env \<Rightarrow> int \<Rightarrow> ('b, 't) UCTSearch \<Rightarrow> (int \<times> ('b, 't) UCTSearch) option" where
  "get_best_move env passflag s =
     (let color = get_to_move (m_rootstate s);
          root1 = UCTNode (data (m_root s))
                    (sort_children env color (get_children (m_root s)));
          movenum = int (get_movenum (m_rootstate s));
          root2 = (if movenum < cfg_random_cnt env
                   then UCTNode (data root1)
                          (randomize_first_proportionally env (get_children root1))
                   else root1);
          s2 = s\<lparr>m_root := root2\<rparr>
      in case get_first_child root2 of
           None \<Rightarrow> None
         | Some first_child \<Rightarrow>
             (let bestmove = get_move first_child
              in if first_visit first_child then Some (bestmove, s2)
                 else
                   (let bestscore = get_eval env color first_child;
                        (bestmove1, bestscore1) =
                          (if passflag AND NOPASS env \<noteq> 0 then
                             (if bestmove = PASS env then
                                (case get_nopass_child env (m_rootstate s2) root2 of
                                   Some nopass \<Rightarrow>
                                     (get_move nopass,
                                      if first_visit nopass then 1
                                      else get_eval env color nopass)
                                 | None \<Rightarrow> (bestmove, bestscore))
                              else (bestmove, bestscore))
                           else
                             (if \<not> cfg_dumbpass env \<and> bestmove = PASS env then
                                (let score = final_score env (m_rootstate s2)
                                 in if (score > 0 \<and> color = WHITE)
                                       \<or> (score < 0 \<and> color = BLACK) then
                                      (case get_nopass_child env (m_rootstate s2) root2 of
                                         Some nopass \<Rightarrow>
                                           (get_move nopass,
                                            if first_visit nopass then 1
                                            else get_eval env color nopass)
                                       | None \<Rightarrow> (bestmove, bestscore))
                                    else (bestmove, bestscore))
                              else if \<not> cfg_dumbpass env
                                      \<and> get_last_move (m_rootstate s2) = PASS env then
                                (let score = final_score env (m_rootstate s2)
                                 in if (score > 0 \<and> color = WHITE)
                                       \<or> (score < 0 \<and> color = BLACK) then
                                      (bestmove, bestscore)
                                    else (PASS env, bestscore))
                              else (bestmove, bestscore)));
                        bestmove2 =
                          (if bestmove1 \<noteq> PASS env then
                             (if should_resign env s2 passflag bestscore1 then RESIGN env
                              else bestmove1)
                           else bestmove1)
                    in Some (bestmove2, s2))))"

subsection \<open>play_simulation (lines 59-113)\<close>

text \<open>
  The state of a call: the local \<^verbatim>\<open>result\<close>, \<^verbatim>\<open>m_nodes\<close>, the transposition
  table, the subtree under the argument node, and the node methods invoked so
  far, in order. Its value at the end is what the call leaves behind. The
  scratch game state is not part of it: no caller reads that after the call.
\<close>

record 't simulation =
  result :: SearchResult
  sim_nodes :: int
  sim_table :: 't
  sim_node :: UCTNode
  calls :: "event list"

text \<open>Lines 60-67: the default result, the table sync and the virtual loss.\<close>

definition enter ::
  "('b, 't) env \<Rightarrow> int \<Rightarrow> 't \<Rightarrow> 'b GameState \<Rightarrow> UCTNode \<Rightarrow> 't simulation" where
  "enter env nodecount tt currstate node0 =
     (let hash = get_hash currstate;
          komi = get_komi currstate
      in \<lparr>result = Invalid, sim_nodes = nodecount, sim_table = tt,
          sim_node = virtual_loss env (TT_sync env tt hash komi node0),
          calls = [([], VirtualLoss)]\<rparr>)"

text \<open>
  Lines 69-83. The \<^verbatim>\<open>float eval\<close> of line 74 is uninitialised; it is read only
  after a successful \<^verbatim>\<open>create_children\<close> has written it, and starts as 0 here.
\<close>

definition expand_or_evaluate ::
  "('b, 't) env \<Rightarrow> 'b GameState \<Rightarrow> 't simulation \<Rightarrow> 't simulation" where
  "expand_or_evaluate env currstate fr =
     (if \<not> has_children (sim_node fr) then
        (if get_passes currstate \<ge> 2 then
           (let score = final_score env currstate
            in fr\<lparr>result := from_score env score\<rparr>)
         else if sim_nodes fr < MAX_TREE_SIZE env then
           (case create_children env (sim_nodes fr) currstate 0 (sim_node fr) of
              (success, n, m, eval_out) \<Rightarrow>
                fr\<lparr>result := (if success then from_eval eval_out else result fr),
                   sim_node := n, sim_nodes := m,
                   calls := calls fr @ [([], CreateChildren)]\<rparr>)
         else
           (let leaf_eval = eval_state env (sim_node fr) currstate
            in fr\<lparr>result := from_eval leaf_eval,
                  calls := calls fr @ [([], EvalState)]\<rparr>))
      else fr)"

text \<open>
  Lines 95 and 101: what the recursive call on child \<open>i\<close> leaves in the
  caller's state. The child's calls are recorded below index \<open>i\<close>.
\<close>

definition below :: "nat \<Rightarrow> event \<Rightarrow> event" where
  "below i ev = (i # fst ev, snd ev)"

definition set_child :: "UCTNode \<Rightarrow> nat \<Rightarrow> UCTNode \<Rightarrow> UCTNode" where
  "set_child n i c = UCTNode (data n) ((get_children n)[i := c])"

definition into_child :: "'t simulation \<Rightarrow> nat \<Rightarrow> 't simulation \<Rightarrow> 't simulation" where
  "into_child fr i r =
     fr\<lparr>result := result r, sim_nodes := sim_nodes r, sim_table := sim_table r,
        sim_node := set_child (sim_node fr) i (sim_node r),
        calls := calls fr @ map (below i) (calls r)\<rparr>"

text \<open>
  Lines 106-112: the backup, the undo of the virtual loss and the table
  update, with the hash and komi read on entry.
\<close>

definition leave ::
  "('b, 't) env \<Rightarrow> 'b GameState \<Rightarrow> 't simulation \<Rightarrow> 't simulation" where
  "leave env currstate fr =
     (let fr1 = (if valid (result fr)
                 then fr\<lparr>sim_node := update (sim_node fr) (eval (result fr)),
                         calls := calls fr @ [([], Update)]\<rparr>
                 else fr);
          fr2 = fr1\<lparr>sim_node := virtual_loss_undo env (sim_node fr1),
                    calls := calls fr1 @ [([], VirtualLossUndo)]\<rparr>
      in fr2\<lparr>sim_table := TT_update env (sim_table fr2) (get_hash currstate)
                              (get_komi currstate) (sim_node fr2)\<rparr>)"

function play_simulation ::
  "('b, 't) env \<Rightarrow> int \<Rightarrow> 't \<Rightarrow> 'b GameState \<Rightarrow> UCTNode \<Rightarrow> 't simulation" where
  "play_simulation env nodecount tt currstate node0 =
     (let color = get_to_move currstate;
          fr1 = expand_or_evaluate env currstate (enter env nodecount tt currstate node0);
          fr2 =
            (if has_children (sim_node fr1) \<and> \<not> valid (result fr1) then
               (let fr = fr1\<lparr>calls := calls fr1 @ [([], UctSelectChild)]\<rparr>
                in case uct_select_child env color (sim_node fr1) of
                     None \<Rightarrow> fr
                   | Some i \<Rightarrow>
                       (let next = get_children (sim_node fr1) ! i;
                            move = get_move next
                        in if move \<noteq> PASS env then
                             (let currstate1 = play_move env move currstate
                              in if \<not> superko env currstate1 then
                                   into_child fr i
                                     (play_simulation env (sim_nodes fr) (sim_table fr)
                                        currstate1 next)
                                 else
                                   fr\<lparr>sim_node := set_child (sim_node fr) i (invalidate next),
                                      calls := calls fr @ [([i], Invalidate)]\<rparr>)
                           else
                             (let currstate1 = play_pass env currstate
                              in into_child fr i
                                   (play_simulation env (sim_nodes fr) (sim_table fr)
                                      currstate1 next))))
             else fr1)
      in leave env currstate fr2)"
  by pat_completeness auto

text \<open>
  Lines 85-104 on their own, as a function of the state after line 83: the
  middle block of the equation above. \<^verbatim>\<open>play_simulation\<close> is \<open>enter\<close>, then
  \<open>expand_or_evaluate\<close>, then \<open>descend\<close>, then \<open>leave\<close>.
\<close>

definition descend ::
  "('b, 't) env \<Rightarrow> 'b GameState \<Rightarrow> 't simulation \<Rightarrow> 't simulation" where
  "descend env currstate fr1 =
     (let color = get_to_move currstate
      in if has_children (sim_node fr1) \<and> \<not> valid (result fr1) then
           (let fr = fr1\<lparr>calls := calls fr1 @ [([], UctSelectChild)]\<rparr>
            in case uct_select_child env color (sim_node fr1) of
                 None \<Rightarrow> fr
               | Some i \<Rightarrow>
                   (let next = get_children (sim_node fr1) ! i;
                        move = get_move next
                    in if move \<noteq> PASS env then
                         (let currstate1 = play_move env move currstate
                          in if \<not> superko env currstate1 then
                               into_child fr i
                                 (play_simulation env (sim_nodes fr) (sim_table fr)
                                    currstate1 next)
                             else
                               fr\<lparr>sim_node := set_child (sim_node fr) i (invalidate next),
                                  calls := calls fr @ [([i], Invalidate)]\<rparr>)
                       else
                         (let currstate1 = play_pass env currstate
                          in into_child fr i
                               (play_simulation env (sim_nodes fr) (sim_table fr)
                                  currstate1 next))))
         else fr1)"

subsection \<open>The simulation loops\<close>

definition increment_playouts :: "('b, 't) UCTSearch \<Rightarrow> ('b, 't) UCTSearch" where
  "increment_playouts s = s\<lparr>m_playouts := m_playouts s + 1\<rparr>"

text \<open>
  One pass through the body of the loop of \<^verbatim>\<open>UCTWorker::operator()\<close>
  (lines 369-373), which is also the simulation part of the body of the loops
  of \<^verbatim>\<open>think\<close> (lines 424-429) and \<^verbatim>\<open>ponder\<close> (lines 484-488): a simulation
  from the root on a copy of the root state, counted when its result is valid.
\<close>

definition simulate_once ::
  "('b, 't) env \<Rightarrow> ('b, 't) UCTSearch \<Rightarrow> ('b, 't) UCTSearch" where
  "simulate_once env s =
     (let currstate = m_rootstate s;
          r = play_simulation env (m_nodes s) (ttable s) currstate (m_root s);
          s1 = s\<lparr>m_root := sim_node r, m_nodes := sim_nodes r, ttable := sim_table r\<rparr>
      in if valid (result r) then increment_playouts s1 else s1)"

text \<open>
  \<^verbatim>\<open>think\<close> up to and including line 414, and \<^verbatim>\<open>ponder\<close> up to and including
  line 477: the search object when the workers are started and the first
  simulation runs. The time budget of line 394 is read only by the loop.
\<close>

definition think_begin ::
  "('b, 't) env \<Rightarrow> color \<Rightarrow> 'b GameState \<Rightarrow> ('b, 't) UCTSearch \<Rightarrow> ('b, 't) UCTSearch" where
  "think_begin env color g s =
     (let s1 = set_gamestate env g s;
          s2 = s1\<lparr>m_rootstate := start_clock env color (m_rootstate s1)\<rparr>;
          s3 = s2\<lparr>m_rootstate := (m_rootstate s2)\<lparr>get_to_move := color\<rparr>\<rparr>;
          s4 = s3\<lparr>m_rootstate := set_timecontrol_boardsize env (m_rootstate s3)\<rparr>;
          s5 = (if \<not> has_children (m_root s4) then
                  (case create_children env (m_nodes s4) (m_rootstate s4) 0 (m_root s4) of
                     (success, n, m, root_eval) \<Rightarrow> s4\<lparr>m_root := n, m_nodes := m\<rparr>)
                else s4);
          s6 = s5\<lparr>m_root := kill_superkos env (m_rootstate s5) (m_root s5)\<rparr>;
          s7 = (if cfg_noise env
                then s6\<lparr>m_root := dirichlet_noise env 0.25 0.03 (m_root s6)\<rparr>
                else s6)
      in s7\<lparr>m_run := True\<rparr>)"

definition ponder_begin ::
  "('b, 't) env \<Rightarrow> 'b GameState \<Rightarrow> ('b, 't) UCTSearch \<Rightarrow> ('b, 't) UCTSearch" where
  "ponder_begin env g s = (set_gamestate env g s)\<lparr>m_run := True\<rparr>"

section \<open>A concrete instance\<close>

text \<open>
  An instance of the other modules, used to run the definitions: the
  sentinels and flag bits have the values \<open>-1\<close>, \<open>-2\<close>, 1 and 2; the
  configuration is the one where both caps are 0 (unlimited) and the resign
  percentage is the default; a move advances the move number and the hash; a
  position repeats when its hash is 7; the evaluator gives every leaf the value
  0.5 and the two children "play at 72" and "pass"; selection takes the first
  child that is not invalidated; the transposition table is empty.
\<close>

definition visited_node :: "int \<Rightarrow> int \<Rightarrow> real \<Rightarrow> UCTNode list \<Rightarrow> UCTNode" where
  "visited_node vertex visits evals cs =
     UCTNode \<lparr>m_move = vertex, m_score = 0.5, m_net_eval = 0.5, m_visits = visits,
              m_blackevals = evals, m_virtual_loss = 0, m_valid = True\<rparr> cs"

fun first_valid :: "UCTNode list \<Rightarrow> nat option" where
  "first_valid [] = None"
| "first_valid (c # cs) =
     (if m_valid (data c) then Some 0
      else (case first_valid cs of None \<Rightarrow> None | Some i \<Rightarrow> Some (Suc i)))"

definition example_env :: "(unit, unit) env" where
  "example_env =
     \<lparr>PASS = -1, RESIGN = -2, NOPASS = 1, NORESIGN = 2,
      MAX_TREE_SIZE = 40000000, VIRTUAL_LOSS_COUNT = 3, limit_max = 2147483647,
      cfg_max_playouts = 0, cfg_max_visits = 0, cfg_resignpct = -1, cfg_random_cnt = 0,
      cfg_dumbpass = False, cfg_noise = False,
      play_move = (\<lambda>m st. st\<lparr>get_hash := get_hash st + 1, get_movenum := get_movenum st + 1,
                                get_last_move := m, get_passes := 0,
                                get_to_move := (if get_to_move st = BLACK then WHITE else BLACK)\<rparr>),
      play_pass = (\<lambda>st. st\<lparr>get_movenum := get_movenum st + 1, get_last_move := -1,
                              get_passes := get_passes st + 1,
                              get_to_move := (if get_to_move st = BLACK then WHITE else BLACK)\<rparr>),
      superko = (\<lambda>st. get_hash st = 7),
      final_score = (\<lambda>st. 3 - get_komi st),
      start_clock = (\<lambda>c st. st),
      set_timecontrol_boardsize = (\<lambda>st. st),
      score_eval = (\<lambda>x. if x > 0 then 1 else if x < 0 then 0 else 0.5),
      evaluate = (\<lambda>st n. Some (0.5, [new_node 72 0.6 0.5, new_node (-1) 0.4 0.5])),
      eval_state = (\<lambda>n st. 0.5),
      select = (\<lambda>c n. first_valid (get_children n)),
      get_eval = (\<lambda>c n. if c = BLACK then m_blackevals (data n) / real_of_int (m_visits (data n))
                          else 1 - m_blackevals (data n) / real_of_int (m_visits (data n))),
      sort_children = (\<lambda>c cs. cs),
      randomize_first_proportionally = (\<lambda>cs. cs),
      get_nopass_child = (\<lambda>st n. None),
      find_new_root = (\<lambda>g st n. (new_node (-1) 0 0.5, g)),
      count_nodes = (\<lambda>n. int (length (get_children n))),
      kill_superkos = (\<lambda>st n. n),
      dirichlet_noise = (\<lambda>a b n. n),
      tt_sync = (\<lambda>tt h k p. p),
      tt_update = (\<lambda>tt h k p. ())\<rparr>"

definition example_state :: "unit GameState" where
  "example_state =
     \<lparr>get_to_move = BLACK, get_hash = 1, get_komi = 7.5, get_handicap = 0,
      get_movenum = 200, get_last_move = 100, get_passes = 0, get_boardsize = 19,
      rest = ()\<rparr>"

definition example_root :: UCTNode where
  "example_root =
     visited_node (-1) 600 12 [visited_node 72 400 8 [], visited_node (-1) 199 4 []]"

definition example_search :: "(unit, unit) UCTSearch" where
  "example_search =
     \<lparr>m_rootstate = example_state, m_root = example_root, m_nodes = 2, m_playouts = 41,
      m_run = False, m_maxplayouts = 2147483647, m_maxvisits = 2147483647, ttable = ()\<rparr>"

text \<open>
  A search object made by the constructor under this configuration, when its
  root has been visited 10 times.
\<close>

definition low_visits_search :: "(unit, unit) UCTSearch" where
  "low_visits_search =
     (UCTSearch_new example_env example_search)
       \<lparr>m_root := visited_node (-1) 10 0.2 [visited_node 72 9 0.18 []]\<rparr>"

text \<open>
  A position one move before a repetition, and a search whose root has the
  single child "pass" with the subtree of \<open>example_root\<close> under it: the
  simulation passes, selects the move at 72 and meets the repetition there.
\<close>

definition superko_state :: "unit GameState" where
  "superko_state = example_state\<lparr>get_hash := 6\<rparr>"

definition deep_search :: "(unit, unit) UCTSearch" where
  "deep_search =
     example_search\<lparr>m_rootstate := superko_state,
                    m_root := visited_node (-1) 700 14 [example_root]\<rparr>"

text \<open>
  The search after the opponent has passed, with the given side to move, and a
  search whose first root child has no visit.
\<close>

definition pass_search :: "color \<Rightarrow> (unit, unit) UCTSearch" where
  "pass_search c =
     example_search\<lparr>m_rootstate := example_state\<lparr>get_to_move := c, get_last_move := -1\<rparr>\<rparr>"

definition fresh_search :: "(unit, unit) UCTSearch" where
  "fresh_search =
     example_search\<lparr>m_root := visited_node (-1) 0 0
                                 [new_node 72 0.6 0.5, visited_node (-1) 5 2 []]\<rparr>"

section \<open>Termination of the simulation recursion\<close>

lemma get_children_TT_sync: "get_children (TT_sync env tt h k n) = get_children n"
  by (simp add: TT_sync_def split: prod.splits)

lemma get_children_virtual_loss: "get_children (virtual_loss env n) = get_children n"
  by (simp add: virtual_loss_def)

lemma size_child: "i < length (get_children n) \<Longrightarrow> size (get_children n ! i) < size n"
  by (cases n) (simp add: less_Suc_eq_le size_list_estimation' [OF nth_mem])

lemma uct_select_child_less:
  "uct_select_child env c n = Some i \<Longrightarrow> i < length (get_children n)"
  by (simp add: uct_select_child_def split: option.splits if_splits)

lemma create_children_failure:
  "create_children env m st e n = (False, n', m', e') \<Longrightarrow> n' = n"
  by (auto simp: create_children_def split: option.splits)

lemma sim_node_enter:
  "sim_node (enter env nodecount tt st n)
     = virtual_loss env (TT_sync env tt (get_hash st) (get_komi st) n)"
  by (simp add: enter_def)

lemma get_children_enter: "get_children (sim_node (enter env nodecount tt st n)) = get_children n"
  by (simp add: sim_node_enter get_children_virtual_loss get_children_TT_sync)

text \<open>
  A node that the first block has expanded has a valid result: where the
  result is still invalid, the children are those that the node had on entry.
\<close>

lemma expand_or_evaluate_invalid:
  assumes "\<not> valid (result (expand_or_evaluate env st fr))"
  shows "get_children (sim_node (expand_or_evaluate env st fr)) = get_children (sim_node fr)"
proof (cases "create_children env (sim_nodes fr) st 0 (sim_node fr)")
  case (fields success n m e)
  with assms show ?thesis
    by (cases success)
      (auto simp: expand_or_evaluate_def from_eval_def from_score_def Let_def
        split: if_splits dest: create_children_failure)
qed

termination play_simulation
proof (relation "measure (\<lambda>(env, m, tt, st, n). size n)", goal_cases)
  case 1
  show ?case by simp
next
  case (2 env nodecount tt currstate node0 color fr1 fr i nxt move currstate1)
  then have "get_children (sim_node fr1) = get_children node0"
    by (simp add: expand_or_evaluate_invalid get_children_enter)
  moreover from 2 have "i < length (get_children (sim_node fr1))"
    by (auto dest: uct_select_child_less)
  ultimately have "size (get_children (sim_node fr1) ! i) < size node0"
    using size_child [of i node0] by simp
  with 2 show ?case
    by simp
next
  case (3 env nodecount tt currstate node0 color fr1 fr i nxt move currstate1)
  then have "get_children (sim_node fr1) = get_children node0"
    by (simp add: expand_or_evaluate_invalid get_children_enter)
  moreover from 3 have "i < length (get_children (sim_node fr1))"
    by (auto dest: uct_select_child_less)
  ultimately have "size (get_children (sim_node fr1) ! i) < size node0"
    using size_child [of i node0] by simp
  with 3 show ?case
    by simp
qed

declare play_simulation.simps [simp del]

section \<open>Facts about the node operations\<close>

lemma has_children_enter:
  "has_children (sim_node (enter env nodecount tt st n)) = has_children n"
  by (simp add: has_children_def get_children_enter)

lemma expand_or_evaluate_inner:
  "has_children (sim_node fr) \<Longrightarrow> expand_or_evaluate env st fr = fr"
  by (simp add: expand_or_evaluate_def)

lemma calls_expand_or_evaluate:
  "calls (expand_or_evaluate env st fr) = calls fr
   \<or> calls (expand_or_evaluate env st fr) = calls fr @ [([], CreateChildren)]
   \<or> calls (expand_or_evaluate env st fr) = calls fr @ [([], EvalState)]"
  by (simp add: expand_or_evaluate_def Let_def split: prod.split)

lemma hd_calls_expand_or_evaluate:
  "calls fr \<noteq> [] \<Longrightarrow> hd (calls (expand_or_evaluate env st fr)) = hd (calls fr)"
  using calls_expand_or_evaluate [of env st fr] by auto

lemma count_calls_expand_or_evaluate:
  "c = VirtualLoss \<or> c = VirtualLossUndo
   \<Longrightarrow> count_list (calls (expand_or_evaluate env st fr)) ([], c) = count_list (calls fr) ([], c)"
  using calls_expand_or_evaluate [of env st fr] by auto

lemma methods_expand_or_evaluate:
  "snd ` set (calls (expand_or_evaluate env st (enter env nodecount tt st node)))
     \<subseteq> {VirtualLoss, CreateChildren, EvalState}"
  using calls_expand_or_evaluate [of env st "enter env nodecount tt st node"]
  by (auto simp: enter_def)

lemma virtual_loss_create_children:
  "create_children env m st e n = (ok, n', m', e')
   \<Longrightarrow> m_virtual_loss (data n') = m_virtual_loss (data n)"
  by (auto simp: create_children_def split: option.splits)

lemma virtual_loss_expand_or_evaluate:
  "m_virtual_loss (data (sim_node (expand_or_evaluate env st fr)))
     = m_virtual_loss (data (sim_node fr))"
  by (auto simp: expand_or_evaluate_def Let_def split: prod.split
      dest: virtual_loss_create_children)

lemma virtual_loss_enter:
  "m_virtual_loss (data (sim_node (enter env nodecount tt st n)))
     = m_virtual_loss (data n) + VIRTUAL_LOSS_COUNT env"
  by (simp add: enter_def Let_def virtual_loss_def TT_sync_def split: prod.split)

lemma calls_leave:
  "calls (leave env st fr)
     = calls fr @ (if valid (result fr) then [([], Update)] else []) @ [([], VirtualLossUndo)]"
  by (simp add: leave_def Let_def)

lemma result_leave: "result (leave env st fr) = result fr"
  by (simp add: leave_def Let_def)

lemma sim_nodes_leave: "sim_nodes (leave env st fr) = sim_nodes fr"
  by (simp add: leave_def Let_def)

lemma sim_node_leave:
  "sim_node (leave env st fr)
     = virtual_loss_undo env
         (if valid (result fr) then update (sim_node fr) (eval (result fr)) else sim_node fr)"
  by (simp add: leave_def Let_def)

lemma virtual_loss_leave:
  "m_virtual_loss (data (sim_node (leave env st fr)))
     = m_virtual_loss (data (sim_node fr)) - VIRTUAL_LOSS_COUNT env"
  by (simp add: sim_node_leave virtual_loss_undo_def update_def)

lemma result_into_child: "result (into_child fr i r) = result r"
  by (simp add: into_child_def)

lemma calls_into_child: "calls (into_child fr i r) = calls fr @ map (below i) (calls r)"
  by (simp add: into_child_def)

lemma count_list_below: "count_list (map (below i) evs) ([], c) = 0"
  by (induction evs) (simp_all add: below_def)

lemma methods_below: "snd ` below i ` A = snd ` A"
  by (simp add: image_image below_def)

lemma simulate_once_invalid:
  "\<not> valid (result (play_simulation env (m_nodes s) (ttable s) (m_rootstate s) (m_root s)))
   \<Longrightarrow> m_playouts (simulate_once env s) = m_playouts s"
  by (simp add: simulate_once_def Let_def)

lemmas example_defs =
  example_env_def example_state_def example_root_def example_search_def
  new_node_def visited_node_def

lemmas run_defs =
  play_simulation.simps enter_def expand_or_evaluate_def leave_def into_child_def
  set_child_def below_def uct_select_child_def create_children_def TT_sync_def TT_update_def
  virtual_loss_def virtual_loss_undo_def update_def invalidate_def has_children_def
  get_move_def get_visits_def from_eval_def from_score_def Let_def

section \<open>The return paths of play_simulation\<close>

text \<open>
  The function's equation, one return path at a time. \<open>fr1\<close> is the state after
  lines 60-83. Without a descent (double pass, expansion, leaf evaluation, or
  a failed expansion that leaves the node without children):
\<close>

lemma play_simulation_no_descent:
  fixes env :: "('b, 't) env" and nodecount :: int and tt :: 't
    and st :: "'b GameState" and node :: UCTNode
  defines "fr1 \<equiv> expand_or_evaluate env st (enter env nodecount tt st node)"
  assumes "\<not> has_children (sim_node fr1) \<or> valid (result fr1)"
  shows "play_simulation env nodecount tt st node = leave env st fr1"
  using assms(2) unfolding fr1_def
  by (subst play_simulation.simps) (auto simp add: Let_def)

text \<open>The selection returns the null pointer:\<close>

lemma play_simulation_null_child:
  fixes env :: "('b, 't) env" and nodecount :: int and tt :: 't
    and st :: "'b GameState" and node :: UCTNode
  defines "fr1 \<equiv> expand_or_evaluate env st (enter env nodecount tt st node)"
  assumes "has_children (sim_node fr1)" and "\<not> valid (result fr1)"
    and "uct_select_child env (get_to_move st) (sim_node fr1) = None"
  shows "play_simulation env nodecount tt st node
    = leave env st (fr1\<lparr>calls := calls fr1 @ [([], UctSelectChild)]\<rparr>)"
  using assms(2-) unfolding fr1_def
  by (subst play_simulation.simps) (simp add: Let_def)

text \<open>The selected move repeats a position:\<close>

lemma play_simulation_superko:
  fixes env :: "('b, 't) env" and nodecount :: int and tt :: 't
    and st :: "'b GameState" and node :: UCTNode and i :: nat
  defines "fr1 \<equiv> expand_or_evaluate env st (enter env nodecount tt st node)"
  defines "nxt \<equiv> get_children (sim_node fr1) ! i"
  assumes "has_children (sim_node fr1)" and "\<not> valid (result fr1)"
    and "uct_select_child env (get_to_move st) (sim_node fr1) = Some i"
    and "get_move nxt \<noteq> PASS env"
    and "superko env (play_move env (get_move nxt) st)"
  shows "play_simulation env nodecount tt st node
    = leave env st
        (fr1\<lparr>sim_node := set_child (sim_node fr1) i (invalidate nxt),
             calls := calls fr1 @ [([], UctSelectChild), ([i], Invalidate)]\<rparr>)"
  using assms(3-) unfolding fr1_def nxt_def
  by (subst play_simulation.simps) (simp add: Let_def)

text \<open>The recursion into the selected child, after a move or a pass:\<close>

lemma play_simulation_recursion:
  fixes env :: "('b, 't) env" and nodecount :: int and tt :: 't
    and st :: "'b GameState" and node :: UCTNode and i :: nat
  defines "fr1 \<equiv> expand_or_evaluate env st (enter env nodecount tt st node)"
  defines "nxt \<equiv> get_children (sim_node fr1) ! i"
  defines "st1 \<equiv> (if get_move nxt \<noteq> PASS env then play_move env (get_move nxt) st
                   else play_pass env st)"
  assumes "has_children (sim_node fr1)" and "\<not> valid (result fr1)"
    and "uct_select_child env (get_to_move st) (sim_node fr1) = Some i"
    and "get_move nxt = PASS env \<or> \<not> superko env (play_move env (get_move nxt) st)"
  shows "play_simulation env nodecount tt st node
    = leave env st
        (into_child (fr1\<lparr>calls := calls fr1 @ [([], UctSelectChild)]\<rparr>) i
           (play_simulation env (sim_nodes fr1) (sim_table fr1) st1 nxt))"
  using assms(4-) unfolding fr1_def nxt_def st1_def
  by (subst play_simulation.simps) (auto simp add: Let_def)

text \<open>
  The equation as the composition of its four blocks, and what the third
  block, which holds the recursion, leaves of the node's own data and of the
  calls recorded for the node.
\<close>

lemma play_simulation_blocks:
  "play_simulation env nodecount tt st node
     = leave env st (descend env st (expand_or_evaluate env st (enter env nodecount tt st node)))"
  by (subst play_simulation.simps) (simp add: descend_def Let_def)

lemma virtual_loss_descend:
  "m_virtual_loss (data (sim_node (descend env st fr))) = m_virtual_loss (data (sim_node fr))"
  by (simp add: descend_def Let_def into_child_def set_child_def split: option.split)

lemma data_descend: "data (sim_node (descend env st fr)) = data (sim_node fr)"
  by (simp add: descend_def Let_def into_child_def set_child_def split: option.split)

lemma calls_descend_nonempty: "calls fr \<noteq> [] \<Longrightarrow> calls (descend env st fr) \<noteq> []"
  by (simp add: descend_def Let_def into_child_def split: option.split)

lemma hd_calls_descend: "calls fr \<noteq> [] \<Longrightarrow> hd (calls (descend env st fr)) = hd (calls fr)"
  by (simp add: descend_def Let_def into_child_def split: option.split)

lemma count_calls_descend:
  "c = VirtualLoss \<or> c = VirtualLossUndo
   \<Longrightarrow> count_list (calls (descend env st fr)) ([], c) = count_list (calls fr) ([], c)"
  by (auto simp add: descend_def Let_def into_child_def count_list_below split: option.split)

text \<open>These are all the return paths.\<close>

lemma return_paths:
  fixes env :: "('b, 't) env" and st :: "'b GameState" and fr :: "'t simulation"
  obtains
    (leaf) "\<not> has_children (sim_node fr) \<or> valid (result fr)"
  | (null) "has_children (sim_node fr)" "\<not> valid (result fr)"
      "uct_select_child env (get_to_move st) (sim_node fr) = None"
  | (superko) i where "has_children (sim_node fr)" "\<not> valid (result fr)"
      "uct_select_child env (get_to_move st) (sim_node fr) = Some i"
      "get_move (get_children (sim_node fr) ! i) \<noteq> PASS env"
      "superko env (play_move env (get_move (get_children (sim_node fr) ! i)) st)"
  | (recursion) i where "has_children (sim_node fr)" "\<not> valid (result fr)"
      "uct_select_child env (get_to_move st) (sim_node fr) = Some i"
      "get_move (get_children (sim_node fr) ! i) = PASS env
       \<or> \<not> superko env (play_move env (get_move (get_children (sim_node fr) ! i)) st)"
  by (cases "uct_select_child env (get_to_move st) (sim_node fr)") blast+

text \<open>
  Every return path ends in lines 106-112, from a state in which the node has
  received the virtual loss once and no undo.
\<close>

lemma play_simulation_before_leave:
  "\<exists>fr2. play_simulation env nodecount tt st node = leave env st fr2
     \<and> hd (calls fr2) = ([], VirtualLoss) \<and> calls fr2 \<noteq> []
     \<and> count_list (calls fr2) ([], VirtualLoss) = 1
     \<and> count_list (calls fr2) ([], VirtualLossUndo) = 0
     \<and> m_virtual_loss (data (sim_node fr2))
         = m_virtual_loss (data node) + VIRTUAL_LOSS_COUNT env"
proof -
  define fr0 where "fr0 = enter env nodecount tt st node"
  define fr1 where "fr1 = expand_or_evaluate env st fr0"
  define sel where "sel = fr1\<lparr>calls := calls fr1 @ [([], UctSelectChild)]\<rparr>"
  have c0: "calls fr0 = [([], VirtualLoss)]"
    by (simp add: fr0_def enter_def)
  have ne: "calls fr1 \<noteq> []"
    using calls_expand_or_evaluate [of env st fr0] c0 by (auto simp: fr1_def)
  have hd: "hd (calls fr1) = ([], VirtualLoss)"
    by (simp add: fr1_def hd_calls_expand_or_evaluate c0)
  have n1: "count_list (calls fr1) ([], VirtualLoss) = 1"
    by (simp add: fr1_def count_calls_expand_or_evaluate c0)
  have n0: "count_list (calls fr1) ([], VirtualLossUndo) = 0"
    by (simp add: fr1_def count_calls_expand_or_evaluate c0)
  have vl: "m_virtual_loss (data (sim_node fr1))
      = m_virtual_loss (data node) + VIRTUAL_LOSS_COUNT env"
    by (simp add: fr1_def fr0_def virtual_loss_expand_or_evaluate virtual_loss_enter)
  show ?thesis
  proof (cases rule: return_paths [where fr = fr1 and env = env and st = st])
    case leaf
    then have "play_simulation env nodecount tt st node = leave env st fr1"
      unfolding fr1_def fr0_def by (rule play_simulation_no_descent)
    with ne hd n1 n0 vl show ?thesis by blast
  next
    case null
    then have "play_simulation env nodecount tt st node = leave env st sel"
      unfolding fr1_def fr0_def sel_def by (rule play_simulation_null_child)
    moreover have "hd (calls sel) = ([], VirtualLoss)" "calls sel \<noteq> []"
      "count_list (calls sel) ([], VirtualLoss) = 1"
      "count_list (calls sel) ([], VirtualLossUndo) = 0"
      "m_virtual_loss (data (sim_node sel))
         = m_virtual_loss (data node) + VIRTUAL_LOSS_COUNT env"
      using ne hd n1 n0 vl by (simp_all add: sel_def)
    ultimately show ?thesis by blast
  next
    case (superko i)
    define fr2 where "fr2 =
      fr1\<lparr>sim_node := set_child (sim_node fr1) i (invalidate (get_children (sim_node fr1) ! i)),
          calls := calls fr1 @ [([], UctSelectChild), ([i], Invalidate)]\<rparr>"
    from superko have "play_simulation env nodecount tt st node = leave env st fr2"
      unfolding fr1_def fr0_def fr2_def by (rule play_simulation_superko)
    moreover have "hd (calls fr2) = ([], VirtualLoss)" "calls fr2 \<noteq> []"
      "count_list (calls fr2) ([], VirtualLoss) = 1"
      "count_list (calls fr2) ([], VirtualLossUndo) = 0"
      "m_virtual_loss (data (sim_node fr2))
         = m_virtual_loss (data node) + VIRTUAL_LOSS_COUNT env"
      using ne hd n1 n0 vl by (simp_all add: fr2_def set_child_def)
    ultimately show ?thesis by blast
  next
    case (recursion i)
    define nxt where "nxt = get_children (sim_node fr1) ! i"
    define st1 where "st1 =
      (if get_move nxt \<noteq> PASS env then play_move env (get_move nxt) st else play_pass env st)"
    define fr2 where "fr2 =
      into_child sel i (play_simulation env (sim_nodes fr1) (sim_table fr1) st1 nxt)"
    from recursion have "play_simulation env nodecount tt st node = leave env st fr2"
      unfolding fr1_def fr0_def fr2_def sel_def st1_def nxt_def
      by (rule play_simulation_recursion)
    moreover have "hd (calls fr2) = ([], VirtualLoss)" "calls fr2 \<noteq> []"
      "count_list (calls fr2) ([], VirtualLoss) = 1"
      "count_list (calls fr2) ([], VirtualLossUndo) = 0"
      "m_virtual_loss (data (sim_node fr2))
         = m_virtual_loss (data node) + VIRTUAL_LOSS_COUNT env"
      using ne hd n1 n0 vl
      by (simp_all add: fr2_def sel_def into_child_def set_child_def count_list_below)
    ultimately show ?thesis by blast
  qed
qed

text \<open>
  A simulation with a valid result has invalidated no node, and a simulation
  with an invalid result has updated none.
\<close>

lemma valid_or_no_update:
  "(valid (result (play_simulation env nodecount tt st node))
      \<longrightarrow> Invalidate \<notin> snd ` set (calls (play_simulation env nodecount tt st node)))
   \<and> (\<not> valid (result (play_simulation env nodecount tt st node))
      \<longrightarrow> Update \<notin> snd ` set (calls (play_simulation env nodecount tt st node)))"
proof (induction node arbitrary: nodecount tt st rule: measure_induct_rule [where f = size])
  case (less node)
  define fr1 where "fr1 = expand_or_evaluate env st (enter env nodecount tt st node)"
  define sel where "sel = fr1\<lparr>calls := calls fr1 @ [([], UctSelectChild)]\<rparr>"
  have m1: "snd ` set (calls fr1) \<subseteq> {VirtualLoss, CreateChildren, EvalState}"
    unfolding fr1_def by (rule methods_expand_or_evaluate)
  show ?case
  proof (cases rule: return_paths [where fr = fr1 and env = env and st = st])
    case leaf
    then have "play_simulation env nodecount tt st node = leave env st fr1"
      unfolding fr1_def by (rule play_simulation_no_descent)
    with m1 show ?thesis
      by (auto simp: calls_leave result_leave)
  next
    case null
    then have "play_simulation env nodecount tt st node = leave env st sel"
      unfolding fr1_def sel_def by (rule play_simulation_null_child)
    with m1 null(2) show ?thesis
      by (auto simp: calls_leave result_leave sel_def)
  next
    case (superko i)
    then have "play_simulation env nodecount tt st node
      = leave env st
          (fr1\<lparr>sim_node :=
                 set_child (sim_node fr1) i (invalidate (get_children (sim_node fr1) ! i)),
               calls := calls fr1 @ [([], UctSelectChild), ([i], Invalidate)]\<rparr>)"
      unfolding fr1_def by (rule play_simulation_superko)
    with m1 superko(2) show ?thesis
      by (auto simp: calls_leave result_leave)
  next
    case (recursion i)
    define nxt where "nxt = get_children (sim_node fr1) ! i"
    define st1 where "st1 =
      (if get_move nxt \<noteq> PASS env then play_move env (get_move nxt) st else play_pass env st)"
    define rc where "rc = play_simulation env (sim_nodes fr1) (sim_table fr1) st1 nxt"
    from recursion
    have eq: "play_simulation env nodecount tt st node = leave env st (into_child sel i rc)"
      unfolding fr1_def sel_def st1_def nxt_def rc_def by (rule play_simulation_recursion)
    from recursion(2) have "get_children (sim_node fr1) = get_children node"
      by (simp add: fr1_def expand_or_evaluate_invalid get_children_enter)
    with recursion(3) have "size nxt < size node"
      using size_child [of i node] by (auto simp: nxt_def dest: uct_select_child_less)
    then have ih: "(valid (result rc) \<longrightarrow> Invalidate \<notin> snd ` set (calls rc))
      \<and> (\<not> valid (result rc) \<longrightarrow> Update \<notin> snd ` set (calls rc))"
      unfolding rc_def by (rule less.IH)
    have "snd ` set (calls (leave env st (into_child sel i rc)))
      = snd ` set (calls fr1) \<union> {UctSelectChild, VirtualLossUndo} \<union> snd ` set (calls rc)
        \<union> (if valid (result rc) then {Update} else {})"
      by (simp add: calls_leave calls_into_child result_into_child sel_def methods_below
          image_Un Un_ac)
    with m1 ih show ?thesis
      unfolding eq by (auto simp: result_leave result_into_child)
  qed
qed

text \<open>Two runs of the instance.\<close>

lemma example_run:
  "calls (play_simulation example_env 2 () example_state example_root) =
     [([], VirtualLoss), ([], UctSelectChild), ([0], VirtualLoss), ([0], CreateChildren),
      ([0], Update), ([0], VirtualLossUndo), ([], Update), ([], VirtualLossUndo)]"
  by (simp add: run_defs example_defs)

lemma deep_search_run:
  "calls (play_simulation example_env (m_nodes deep_search) ()
       (m_rootstate deep_search) (m_root deep_search)) =
     [([], VirtualLoss), ([], UctSelectChild), ([0], VirtualLoss), ([0], UctSelectChild),
      ([0, 0], Invalidate), ([0], VirtualLossUndo), ([], VirtualLossUndo)]"
  by (simp add: run_defs example_defs deep_search_def superko_state_def)

text \<open>
  The tree after the first run, and the tree of that run before lines 106-112.
\<close>

lemma example_run_node:
  "sim_node (play_simulation example_env 2 () example_state example_root) =
     UCTNode \<lparr>m_move = -1, m_score = 0.5, m_net_eval = 0.5, m_visits = 601,
              m_blackevals = 12.5, m_virtual_loss = 0, m_valid = True\<rparr>
       [UCTNode \<lparr>m_move = 72, m_score = 0.5, m_net_eval = 0.5, m_visits = 401,
                 m_blackevals = 8.5, m_virtual_loss = 0, m_valid = True\<rparr>
          [new_node 72 0.6 0.5, new_node (-1) 0.4 0.5],
        visited_node (-1) 199 4 []]"
  by (simp add: run_defs example_defs)

lemma example_run_descend:
  "sim_node (descend example_env example_state
       (expand_or_evaluate example_env example_state
          (enter example_env 2 () example_state example_root))) =
     UCTNode \<lparr>m_move = -1, m_score = 0.5, m_net_eval = 0.5, m_visits = 600,
              m_blackevals = 12, m_virtual_loss = 3, m_valid = True\<rparr>
       [UCTNode \<lparr>m_move = 72, m_score = 0.5, m_net_eval = 0.5, m_visits = 401,
                 m_blackevals = 8.5, m_virtual_loss = 0, m_valid = True\<rparr>
          [new_node 72 0.6 0.5, new_node (-1) 0.4 0.5],
        visited_node (-1) 199 4 []]"
  by (simp add: descend_def run_defs example_defs)

section \<open>The limit setters\<close>

text \<open>
  C9. For every argument \<open>n\<close>, \<^verbatim>\<open>set_playout_limit(n)\<close> sets the playout cap to
  the maximum of the cap's type when \<open>n = 0\<close> and to \<open>n\<close> otherwise, and
  \<^verbatim>\<open>set_visit_limit(n)\<close> does the same to the visit cap.
\<close>

theorem set_limit_zero_is_unlimited:
  "m_maxplayouts (set_playout_limit env n s) = (if n = 0 then limit_max env else n)
   \<and> m_maxvisits (set_visit_limit env n s) = (if n = 0 then limit_max env else n)"
  by (simp add: set_playout_limit_def set_visit_limit_def)

theorem set_limit_zero_is_unlimited_witness:
  "m_maxplayouts (set_playout_limit example_env 0 example_search) = 2147483647
   \<and> m_maxvisits (set_visit_limit example_env 0 example_search) = 2147483647
   \<and> m_maxplayouts (set_playout_limit example_env 1600 example_search) = 1600
   \<and> m_maxvisits (set_visit_limit example_env 1600 example_search) = 1600"
  using set_limit_zero_is_unlimited [of example_env 0 example_search]
    set_limit_zero_is_unlimited [of example_env 1600 example_search]
  by (simp add: example_env_def)

section \<open>set_gamestate\<close>

text \<open>
  C10. Every call of \<^verbatim>\<open>set_gamestate\<close> leaves \<^verbatim>\<open>m_playouts\<close> at 0, whether the
  tree is rerooted or kept. \<^verbatim>\<open>think\<close> and \<^verbatim>\<open>ponder\<close> start with that call and
  do not touch the counter before their first simulation, so both start
  counting from 0.
\<close>

theorem set_gamestate_resets_playouts:
  "m_playouts (set_gamestate env g s) = 0
   \<and> m_playouts (think_begin env c g s) = 0
   \<and> m_playouts (ponder_begin env g s) = 0"
  by (simp add: set_gamestate_def think_begin_def ponder_begin_def Let_def split: prod.splits)

text \<open>
  In the instance the counter stands at 41; the same position keeps the root,
  a position with another hash replaces it, and the counter is 0 after both.
\<close>

theorem set_gamestate_resets_playouts_witness:
  "m_playouts example_search = 41
   \<and> m_root (set_gamestate example_env example_state example_search) = example_root
   \<and> m_playouts (set_gamestate example_env example_state example_search) = 0
   \<and> m_root (set_gamestate example_env (example_state\<lparr>get_hash := 2\<rparr>) example_search)
       = new_node (-1) 0 0.5
   \<and> m_playouts (set_gamestate example_env (example_state\<lparr>get_hash := 2\<rparr>) example_search) = 0
   \<and> m_playouts (think_begin example_env BLACK example_state example_search) = 0
   \<and> m_playouts (ponder_begin example_env example_state example_search) = 0"
  using set_gamestate_resets_playouts [of example_env example_state example_search BLACK]
    set_gamestate_resets_playouts
      [of example_env "example_state\<lparr>get_hash := 2\<rparr>" example_search BLACK]
  by (simp add: set_gamestate_def example_search_def example_state_def example_env_def)

section \<open>should_resign\<close>

text \<open>
  C8. With a pass flag that does not contain NORESIGN, \<^verbatim>\<open>cfg_resignpct = -1\<close>,
  600 root visits, a best score of 0.02, a 19x19 board and no handicap,
  \<^verbatim>\<open>should_resign\<close> returns true at move 200 and false at move 80. None of the
  two comparisons of evaluations is near a rounding boundary of \<^verbatim>\<open>float\<close>
  (0.02 against 0.1).
\<close>

theorem should_resign_scenario:
  assumes "passflag AND NORESIGN env = 0"
    and "cfg_resignpct env = -1"
    and "get_visits (m_root s) = 600"
    and "get_boardsize (m_rootstate s) = 19"
    and "get_handicap (m_rootstate s) = 0"
  shows "should_resign env (s\<lparr>m_rootstate := (m_rootstate s)\<lparr>get_movenum := 200\<rparr>\<rparr>)
           passflag 0.02
    \<and> \<not> should_resign env (s\<lparr>m_rootstate := (m_rootstate s)\<lparr>get_movenum := 80\<rparr>\<rparr>)
           passflag 0.02"
  using assms by (simp add: should_resign_def Let_def)

theorem should_resign_scenario_witness:
  "(0::int) AND NORESIGN example_env = 0
   \<and> cfg_resignpct example_env = -1
   \<and> get_visits (m_root example_search) = 600
   \<and> get_boardsize (m_rootstate example_search) = 19
   \<and> get_handicap (m_rootstate example_search) = 0
   \<and> should_resign example_env
        (example_search\<lparr>m_rootstate := (m_rootstate example_search)\<lparr>get_movenum := 200\<rparr>\<rparr>)
        0 0.02
   \<and> \<not> should_resign example_env
        (example_search\<lparr>m_rootstate := (m_rootstate example_search)\<lparr>get_movenum := 80\<rparr>\<rparr>)
        0 0.02"
proof -
  have h: "(0::int) AND NORESIGN example_env = 0" "cfg_resignpct example_env = -1"
    "get_visits (m_root example_search) = 600"
    "get_boardsize (m_rootstate example_search) = 19"
    "get_handicap (m_rootstate example_search) = 0"
    by (simp_all add: example_defs get_visits_def)
  from should_resign_scenario [OF h] h show ?thesis by simp
qed

text \<open>
  The low-visit gate of lines 165-169, as the code has it: it compares the
  root's visits with the configured number \<^verbatim>\<open>cfg_max_playouts\<close>.
\<close>

lemma should_resign_low_visits:
  "get_visits (m_root s) < min 500 (cfg_max_playouts env)
   \<Longrightarrow> \<not> should_resign env s passflag bestscore"
  by (simp add: should_resign_def Let_def)

text \<open>
  C2. \<^verbatim>\<open>should_resign\<close> is to return false whenever the root has fewer visits
  than \<open>min 500 max_playouts\<close>, where a configured cap of 0 stands for the largest
  value of the cap's type. The code takes the minimum with the configured
  number itself, which is 0 for an unlimited search, so the gate never closes
  there: with \<^verbatim>\<open>cfg_max_playouts = 0\<close>, the cap \<^verbatim>\<open>m_maxplayouts\<close> at its maximum
  and 10 root visits, \<^verbatim>\<open>should_resign\<close> returns true.
\<close>

theorem should_resign_low_visits_unlimited:
  "cfg_max_playouts example_env = 0
   \<and> m_maxplayouts low_visits_search = limit_max example_env
   \<and> get_visits (m_root low_visits_search) = 10
   \<and> get_visits (m_root low_visits_search) < min 500 (m_maxplayouts low_visits_search)
   \<and> should_resign example_env low_visits_search 0 0.02"
  by (simp add: should_resign_def low_visits_search_def UCTSearch_new_def
      set_playout_limit_def set_visit_limit_def example_defs get_visits_def)

section \<open>The virtual-loss discipline\<close>

text \<open>
  C1. Every call of \<^verbatim>\<open>play_simulation\<close> applies \<^verbatim>\<open>virtual_loss\<close> exactly once
  and \<^verbatim>\<open>virtual_loss_undo\<close> exactly once to its argument node, on every
  return path. In the state: line 67 applies \<^verbatim>\<open>virtual_loss\<close> to the synced
  argument node, which raises its counter by \<open>VIRTUAL_LOSS_COUNT\<close>; the counter
  stands at that raised value after line 67, after line 83 and after line 104,
  whichever branch is taken; every path then goes through lines 106-112, where
  \<^verbatim>\<open>virtual_loss_undo\<close> is applied to the node; and the counter of the
  returned node is the one from before the call. In the recorded calls: the
  virtual loss is the first call and the only one of its kind on the node, the
  undo is the last and the only one.
\<close>

theorem virtual_loss_discipline:
  fixes env :: "('b, 't) env" and nodecount :: int and tt :: 't
    and st :: "'b GameState" and node :: UCTNode
  defines "r \<equiv> play_simulation env nodecount tt st node"
    and "fr0 \<equiv> enter env nodecount tt st node"
  defines "fr1 \<equiv> expand_or_evaluate env st fr0"
  defines "fr2 \<equiv> descend env st fr1"
  shows "r = leave env st fr2
    \<and> sim_node fr0 = virtual_loss env (TT_sync env tt (get_hash st) (get_komi st) node)
    \<and> calls fr0 = [([], VirtualLoss)]
    \<and> m_virtual_loss (data (sim_node fr0))
        = m_virtual_loss (data node) + VIRTUAL_LOSS_COUNT env
    \<and> m_virtual_loss (data (sim_node fr1))
        = m_virtual_loss (data node) + VIRTUAL_LOSS_COUNT env
    \<and> m_virtual_loss (data (sim_node fr2))
        = m_virtual_loss (data node) + VIRTUAL_LOSS_COUNT env
    \<and> count_list (calls fr2) ([], VirtualLoss) = 1
    \<and> count_list (calls fr2) ([], VirtualLossUndo) = 0
    \<and> sim_node r
        = virtual_loss_undo env
            (if valid (result fr2) then update (sim_node fr2) (eval (result fr2))
             else sim_node fr2)
    \<and> calls r
        = calls fr2 @ (if valid (result fr2) then [([], Update)] else [])
            @ [([], VirtualLossUndo)]
    \<and> m_virtual_loss (data (sim_node r)) = m_virtual_loss (data node)
    \<and> count_list (calls r) ([], VirtualLoss) = 1
    \<and> count_list (calls r) ([], VirtualLossUndo) = 1
    \<and> hd (calls r) = ([], VirtualLoss)
    \<and> last (calls r) = ([], VirtualLossUndo)"
proof -
  have eq: "r = leave env st fr2"
    unfolding r_def fr2_def fr1_def fr0_def by (rule play_simulation_blocks)
  have n0: "sim_node fr0 = virtual_loss env (TT_sync env tt (get_hash st) (get_komi st) node)"
    and c0: "calls fr0 = [([], VirtualLoss)]"
    by (simp_all add: fr0_def enter_def)
  have v0: "m_virtual_loss (data (sim_node fr0))
      = m_virtual_loss (data node) + VIRTUAL_LOSS_COUNT env"
    unfolding fr0_def by (rule virtual_loss_enter)
  have v1: "m_virtual_loss (data (sim_node fr1))
      = m_virtual_loss (data node) + VIRTUAL_LOSS_COUNT env"
    by (simp add: fr1_def virtual_loss_expand_or_evaluate v0)
  have v2: "m_virtual_loss (data (sim_node fr2))
      = m_virtual_loss (data node) + VIRTUAL_LOSS_COUNT env"
    by (simp add: fr2_def virtual_loss_descend v1)
  have ne1: "calls fr1 \<noteq> []"
    using calls_expand_or_evaluate [of env st fr0] c0 by (auto simp: fr1_def)
  have ne2: "calls fr2 \<noteq> []"
    unfolding fr2_def using ne1 by (rule calls_descend_nonempty)
  have hd2: "hd (calls fr2) = ([], VirtualLoss)"
    by (simp add: fr2_def fr1_def hd_calls_descend hd_calls_expand_or_evaluate
        ne1 [unfolded fr1_def] c0)
  have k1: "count_list (calls fr2) ([], VirtualLoss) = 1"
    by (simp add: fr2_def fr1_def count_calls_descend count_calls_expand_or_evaluate c0)
  have k0: "count_list (calls fr2) ([], VirtualLossUndo) = 0"
    by (simp add: fr2_def fr1_def count_calls_descend count_calls_expand_or_evaluate c0)
  have nr: "sim_node r
      = virtual_loss_undo env
          (if valid (result fr2) then update (sim_node fr2) (eval (result fr2))
           else sim_node fr2)"
    unfolding eq by (rule sim_node_leave)
  have cr: "calls r
      = calls fr2 @ (if valid (result fr2) then [([], Update)] else [])
          @ [([], VirtualLossUndo)]"
    unfolding eq by (rule calls_leave)
  have vr: "m_virtual_loss (data (sim_node r)) = m_virtual_loss (data node)"
    unfolding eq by (simp add: virtual_loss_leave v2)
  have "count_list (calls r) ([], VirtualLoss) = 1"
    "count_list (calls r) ([], VirtualLossUndo) = 1"
    "hd (calls r) = ([], VirtualLoss)"
    "last (calls r) = ([], VirtualLossUndo)"
    using ne2 hd2 k1 k0 by (simp_all add: cr)
  with eq n0 c0 v0 v1 v2 k1 k0 nr cr vr show ?thesis
    by blast
qed

theorem virtual_loss_discipline_witness:
  "m_virtual_loss (data example_root) = 0
   \<and> VIRTUAL_LOSS_COUNT example_env = 3
   \<and> m_virtual_loss (data (sim_node (enter example_env 2 () example_state example_root))) = 3
   \<and> m_virtual_loss (data (sim_node
        (expand_or_evaluate example_env example_state
           (enter example_env 2 () example_state example_root)))) = 3
   \<and> sim_node (descend example_env example_state
        (expand_or_evaluate example_env example_state
           (enter example_env 2 () example_state example_root))) =
       UCTNode \<lparr>m_move = -1, m_score = 0.5, m_net_eval = 0.5, m_visits = 600,
                m_blackevals = 12, m_virtual_loss = 3, m_valid = True\<rparr>
         [UCTNode \<lparr>m_move = 72, m_score = 0.5, m_net_eval = 0.5, m_visits = 401,
                   m_blackevals = 8.5, m_virtual_loss = 0, m_valid = True\<rparr>
            [new_node 72 0.6 0.5, new_node (-1) 0.4 0.5],
          visited_node (-1) 199 4 []]
   \<and> sim_node (play_simulation example_env 2 () example_state example_root) =
       UCTNode \<lparr>m_move = -1, m_score = 0.5, m_net_eval = 0.5, m_visits = 601,
                m_blackevals = 12.5, m_virtual_loss = 0, m_valid = True\<rparr>
         [UCTNode \<lparr>m_move = 72, m_score = 0.5, m_net_eval = 0.5, m_visits = 401,
                   m_blackevals = 8.5, m_virtual_loss = 0, m_valid = True\<rparr>
            [new_node 72 0.6 0.5, new_node (-1) 0.4 0.5],
          visited_node (-1) 199 4 []]
   \<and> calls (play_simulation example_env 2 () example_state example_root) =
       [([], VirtualLoss), ([], UctSelectChild), ([0], VirtualLoss), ([0], CreateChildren),
        ([0], Update), ([0], VirtualLossUndo), ([], Update), ([], VirtualLossUndo)]
   \<and> count_list (calls (play_simulation example_env 2 () example_state example_root))
       ([], VirtualLoss) = 1
   \<and> count_list (calls (play_simulation example_env 2 () example_state example_root))
       ([], VirtualLossUndo) = 1"
proof -
  have p: "m_virtual_loss (data example_root) = 0" "VIRTUAL_LOSS_COUNT example_env = 3"
    by (simp_all add: example_defs)
  note t = virtual_loss_discipline [of example_env 2 "()" example_state example_root]
  from t have "m_virtual_loss (data (sim_node
        (enter example_env 2 () example_state example_root)))
      = m_virtual_loss (data example_root) + VIRTUAL_LOSS_COUNT example_env"
    by blast
  moreover from t have "m_virtual_loss (data (sim_node
        (expand_or_evaluate example_env example_state
           (enter example_env 2 () example_state example_root))))
      = m_virtual_loss (data example_root) + VIRTUAL_LOSS_COUNT example_env"
    by blast
  moreover from t
  have "count_list (calls (play_simulation example_env 2 () example_state example_root))
       ([], VirtualLoss) = 1"
    by blast
  moreover from t
  have "count_list (calls (play_simulation example_env 2 () example_state example_root))
       ([], VirtualLossUndo) = 1"
    by blast
  ultimately show ?thesis
    using p example_run example_run_node example_run_descend by simp
qed

section \<open>play_simulation at a leaf\<close>

text \<open>
  C5. When the node has no children and the state records two or more
  consecutive passes, the result is \<^verbatim>\<open>from_score(state.final_score())\<close>, which is
  valid; the node methods invoked are the virtual loss, the update and the
  undo, so neither \<^verbatim>\<open>create_children\<close> nor \<^verbatim>\<open>eval_state\<close> runs, and the node
  stays without children.
\<close>

theorem double_pass_is_terminal:
  fixes env :: "('b, 't) env" and nodecount :: int and tt :: 't
    and st :: "'b GameState" and node :: UCTNode
  defines "r \<equiv> play_simulation env nodecount tt st node"
  assumes "\<not> has_children node" and "get_passes st \<ge> 2"
  shows "result r = from_score env (final_score env st)
    \<and> valid (result r)
    \<and> calls r = [([], VirtualLoss), ([], Update), ([], VirtualLossUndo)]
    \<and> sim_nodes r = nodecount
    \<and> \<not> has_children (sim_node r)"
proof -
  define fr0 where "fr0 = enter env nodecount tt st node"
  have fr1: "expand_or_evaluate env st fr0 = fr0\<lparr>result := from_score env (final_score env st)\<rparr>"
    using assms(2,3) by (simp add: fr0_def expand_or_evaluate_def has_children_enter)
  have "valid (result (expand_or_evaluate env st fr0))"
    by (simp add: fr1 from_score_def)
  then have "r = leave env st (expand_or_evaluate env st fr0)"
    unfolding r_def fr0_def by (intro play_simulation_no_descent) simp
  moreover have "sim_nodes fr0 = nodecount" "calls fr0 = [([], VirtualLoss)]"
    "get_children (sim_node fr0) = get_children node"
    by (simp_all add: fr0_def enter_def get_children_virtual_loss get_children_TT_sync)
  ultimately show ?thesis
    using assms(2)
    by (simp add: fr1 result_leave calls_leave sim_nodes_leave sim_node_leave from_score_def
        has_children_def virtual_loss_undo_def update_def)
qed

theorem double_pass_is_terminal_witness:
  "\<not> has_children (new_node 72 0.6 0.5)
   \<and> get_passes (example_state\<lparr>get_passes := 2\<rparr>) \<ge> 2
   \<and> result (play_simulation example_env 2 () (example_state\<lparr>get_passes := 2\<rparr>)
        (new_node 72 0.6 0.5)) = Valid 0
   \<and> calls (play_simulation example_env 2 () (example_state\<lparr>get_passes := 2\<rparr>)
        (new_node 72 0.6 0.5)) = [([], VirtualLoss), ([], Update), ([], VirtualLossUndo)]"
proof -
  have h: "\<not> has_children (new_node 72 0.6 0.5)"
    "get_passes (example_state\<lparr>get_passes := 2\<rparr>) \<ge> 2"
    by (simp_all add: has_children_def example_defs)
  have "from_score example_env (final_score example_env (example_state\<lparr>get_passes := 2\<rparr>))
    = Valid 0"
    by (simp add: from_score_def example_defs)
  with double_pass_is_terminal [OF h, of example_env 2 "()"] h show ?thesis by simp
qed

text \<open>
  C4. When the node has no children, the state has fewer than two consecutive
  passes and \<^verbatim>\<open>m_nodes\<close> has reached \<^verbatim>\<open>MAX_TREE_SIZE\<close>, no expansion is attempted:
  the result is \<^verbatim>\<open>from_eval(node->eval_state(currstate))\<close>, it is valid, and it is
  backed up into the node, which stays without children while \<^verbatim>\<open>m_nodes\<close> keeps
  its value.
\<close>

theorem tree_full_leaf_evaluation:
  fixes env :: "('b, 't) env" and nodecount :: int and tt :: 't
    and st :: "'b GameState" and node :: UCTNode
  defines "node2 \<equiv> virtual_loss env (TT_sync env tt (get_hash st) (get_komi st) node)"
    and "r \<equiv> play_simulation env nodecount tt st node"
  assumes "\<not> has_children node" and "get_passes st < 2"
    and "nodecount \<ge> MAX_TREE_SIZE env"
  shows "result r = from_eval (eval_state env node2 st)
    \<and> valid (result r)
    \<and> calls r = [([], VirtualLoss), ([], EvalState), ([], Update), ([], VirtualLossUndo)]
    \<and> sim_nodes r = nodecount
    \<and> \<not> has_children (sim_node r)
    \<and> sim_node r = virtual_loss_undo env (update node2 (eval_state env node2 st))"
proof -
  define fr0 where "fr0 = enter env nodecount tt st node"
  have n0: "sim_node fr0 = node2" and m0: "sim_nodes fr0 = nodecount"
    and c0: "calls fr0 = [([], VirtualLoss)]"
    by (simp_all add: fr0_def enter_def node2_def)
  have ch: "get_children node2 = get_children node"
    by (simp add: node2_def get_children_virtual_loss get_children_TT_sync)
  have fr1: "expand_or_evaluate env st fr0
      = fr0\<lparr>result := from_eval (eval_state env node2 st),
            calls := calls fr0 @ [([], EvalState)]\<rparr>"
    using assms(3-) by (simp add: expand_or_evaluate_def n0 m0 has_children_def ch)
  have "valid (result (expand_or_evaluate env st fr0))"
    by (simp add: fr1 from_eval_def)
  then have "r = leave env st (expand_or_evaluate env st fr0)"
    unfolding r_def fr0_def by (intro play_simulation_no_descent) simp
  with assms(3) show ?thesis
    by (simp add: fr1 result_leave calls_leave sim_nodes_leave sim_node_leave from_eval_def
        n0 m0 c0 ch has_children_def virtual_loss_undo_def update_def)
qed

theorem tree_full_leaf_evaluation_witness:
  "\<not> has_children (new_node 72 0.6 0.5)
   \<and> get_passes example_state < 2
   \<and> (40000000::int) \<ge> MAX_TREE_SIZE example_env
   \<and> result (play_simulation example_env 40000000 () example_state (new_node 72 0.6 0.5))
       = Valid 0.5
   \<and> calls (play_simulation example_env 40000000 () example_state (new_node 72 0.6 0.5))
       = [([], VirtualLoss), ([], EvalState), ([], Update), ([], VirtualLossUndo)]
   \<and> get_visits (sim_node
        (play_simulation example_env 40000000 () example_state (new_node 72 0.6 0.5))) = 1"
proof -
  have h: "\<not> has_children (new_node 72 0.6 0.5)" "get_passes example_state < 2"
    "(40000000::int) \<ge> MAX_TREE_SIZE example_env"
    by (simp_all add: has_children_def example_defs)
  have "eval_state example_env n example_state = 0.5" for n
    by (simp add: example_defs)
  with tree_full_leaf_evaluation [OF h, of "()"] h show ?thesis
    by (simp add: from_eval_def get_visits_def virtual_loss_undo_def update_def
        virtual_loss_def TT_sync_def example_defs)
qed

section \<open>Superko\<close>

text \<open>
  C3. When the selected child's move is not PASS and playing it makes
  \<^verbatim>\<open>superko()\<close> true, the child is invalidated, there is no recursion into it,
  \<^verbatim>\<open>update\<close> is not called and the returned result is invalid. A simulation in
  which this has happened at some depth (its calls contain an \<^verbatim>\<open>invalidate\<close>)
  returns an invalid result to the loop that started it, has called \<^verbatim>\<open>update\<close>
  on no node, and is not counted as a playout.
\<close>

theorem superko_invalidates_child:
  fixes env :: "('b, 't) env" and nodecount :: int and tt :: 't
    and st :: "'b GameState" and node :: UCTNode and i :: nat
    and s :: "('b, 't) UCTSearch"
  defines "node2 \<equiv> virtual_loss env (TT_sync env tt (get_hash st) (get_komi st) node)"
    and "nxt \<equiv> get_children node ! i"
    and "r \<equiv> play_simulation env nodecount tt st node"
    and "whole \<equiv> play_simulation env (m_nodes s) (ttable s) (m_rootstate s) (m_root s)"
  assumes "has_children node"
    and "uct_select_child env (get_to_move st) node2 = Some i"
    and "get_move nxt \<noteq> PASS env"
    and "superko env (play_move env (get_move nxt) st)"
  shows "result r = Invalid
    \<and> sim_node r = virtual_loss_undo env (set_child node2 i (invalidate nxt))
    \<and> calls r = [([], VirtualLoss), ([], UctSelectChild), ([i], Invalidate),
                 ([], VirtualLossUndo)]
    \<and> sim_nodes r = nodecount
    \<and> (Invalidate \<in> snd ` set (calls whole)
        \<longrightarrow> \<not> valid (result whole) \<and> Update \<notin> snd ` set (calls whole)
            \<and> m_playouts (simulate_once env s) = m_playouts s)"
proof -
  define fr0 where "fr0 = enter env nodecount tt st node"
  have fr1: "expand_or_evaluate env st fr0 = fr0"
    using assms(5) by (simp add: fr0_def expand_or_evaluate_inner has_children_enter)
  have n0: "sim_node fr0 = node2" and r0: "result fr0 = Invalid"
    and c0: "calls fr0 = [([], VirtualLoss)]" and m0: "sim_nodes fr0 = nodecount"
    by (simp_all add: fr0_def enter_def node2_def)
  have ch: "get_children node2 = get_children node"
    by (simp add: node2_def get_children_virtual_loss get_children_TT_sync)
  have "has_children (sim_node fr0)" "\<not> valid (result fr0)"
    "uct_select_child env (get_to_move st) (sim_node fr0) = Some i"
    "get_move (get_children (sim_node fr0) ! i) \<noteq> PASS env"
    "superko env (play_move env (get_move (get_children (sim_node fr0) ! i)) st)"
    using assms(5-) by (simp_all add: n0 r0 ch nxt_def has_children_def)
  then have "r = leave env st
      (fr0\<lparr>sim_node := set_child (sim_node fr0) i (invalidate (get_children (sim_node fr0) ! i)),
           calls := calls fr0 @ [([], UctSelectChild), ([i], Invalidate)]\<rparr>)"
    unfolding r_def
    using play_simulation_superko [of env st nodecount tt node i, unfolded fr1 [unfolded fr0_def]]
    by (simp add: fr0_def)
  then have frame: "result r = Invalid"
    "sim_node r = virtual_loss_undo env (set_child node2 i (invalidate nxt))"
    "calls r = [([], VirtualLoss), ([], UctSelectChild), ([i], Invalidate), ([], VirtualLossUndo)]"
    "sim_nodes r = nodecount"
    by (simp_all add: result_leave sim_node_leave calls_leave sim_nodes_leave n0 r0 c0 m0 ch nxt_def)
  have "\<not> valid (result whole) \<and> Update \<notin> snd ` set (calls whole)
      \<and> m_playouts (simulate_once env s) = m_playouts s"
    if "Invalidate \<in> snd ` set (calls whole)"
  proof -
    from that have "\<not> valid (result whole)"
      using valid_or_no_update [of env "m_nodes s" "ttable s" "m_rootstate s" "m_root s"]
      unfolding whole_def by blast
    moreover from this have "Update \<notin> snd ` set (calls whole)"
      using valid_or_no_update [of env "m_nodes s" "ttable s" "m_rootstate s" "m_root s"]
      unfolding whole_def by blast
    moreover from \<open>\<not> valid (result whole)\<close> have "m_playouts (simulate_once env s) = m_playouts s"
      unfolding whole_def by (rule simulate_once_invalid)
    ultimately show ?thesis by simp
  qed
  with frame show ?thesis by blast
qed

theorem superko_invalidates_child_witness:
  "has_children example_root
   \<and> uct_select_child example_env (get_to_move superko_state)
        (virtual_loss example_env
          (TT_sync example_env () (get_hash superko_state) (get_komi superko_state)
            example_root)) = Some 0
   \<and> get_move (get_children example_root ! 0) \<noteq> PASS example_env
   \<and> superko example_env
        (play_move example_env (get_move (get_children example_root ! 0)) superko_state)
   \<and> result (play_simulation example_env 2 () superko_state example_root) = Invalid
   \<and> calls (play_simulation example_env 2 () superko_state example_root) =
       [([], VirtualLoss), ([], UctSelectChild), ([0], Invalidate), ([], VirtualLossUndo)]
   \<and> \<not> m_valid (data (get_children
        (sim_node (play_simulation example_env 2 () superko_state example_root)) ! 0))
   \<and> Invalidate \<in> snd ` set (calls (play_simulation example_env (m_nodes deep_search)
        () (m_rootstate deep_search) (m_root deep_search)))
   \<and> m_playouts (simulate_once example_env deep_search) = 41"
proof -
  have h: "has_children example_root"
    "uct_select_child example_env (get_to_move superko_state)
        (virtual_loss example_env
          (TT_sync example_env () (get_hash superko_state) (get_komi superko_state)
            example_root)) = Some 0"
    "get_move (get_children example_root ! 0) \<noteq> PASS example_env"
    "superko example_env
        (play_move example_env (get_move (get_children example_root ! 0)) superko_state)"
    by (simp_all add: has_children_def uct_select_child_def virtual_loss_def TT_sync_def
        get_move_def superko_state_def example_defs)
  have d: "Invalidate \<in> snd ` set (calls (play_simulation example_env (m_nodes deep_search)
        () (m_rootstate deep_search) (m_root deep_search)))"
    by (simp add: deep_search_run)
  have p: "m_playouts deep_search = 41"
    by (simp add: deep_search_def example_defs)
  have c: "get_children (virtual_loss example_env
          (TT_sync example_env () (get_hash superko_state) (get_komi superko_state)
            example_root)) \<noteq> []"
    by (simp add: get_children_virtual_loss get_children_TT_sync example_defs)
  from superko_invalidates_child [OF h, of 2 deep_search] h d p c show ?thesis
    by (simp add: virtual_loss_undo_def set_child_def invalidate_def)
qed

section \<open>get_best_move\<close>

text \<open>
  C7. When, after the sort and the early-game randomisation, the first child
  of the root has no visit, \<^verbatim>\<open>get_best_move\<close> returns that child's move,
  whatever the pass flag and the configuration are: neither the pass logic nor
  the resignation test changes it.
\<close>

theorem unvisited_first_child_returned:
  fixes env :: "('b, 't) env" and passflag :: int and s :: "('b, 't) UCTSearch"
    and c :: UCTNode and cs :: "UCTNode list"
  defines "color \<equiv> get_to_move (m_rootstate s)"
  defines "sorted_cs \<equiv> sort_children env color (get_children (m_root s))"
  defines "ordered \<equiv>
    (if int (get_movenum (m_rootstate s)) < cfg_random_cnt env
     then randomize_first_proportionally env sorted_cs else sorted_cs)"
  assumes "ordered = c # cs" and "get_visits c = 0"
  shows "get_best_move env passflag s
    = Some (get_move c, s\<lparr>m_root := UCTNode (data (m_root s)) ordered\<rparr>)"
  using assms(4,5) unfolding ordered_def sorted_cs_def color_def
  by (auto simp add: get_best_move_def Let_def get_first_child_def first_visit_def split: if_splits)

theorem unvisited_first_child_returned_witness:
  "get_children (m_root fresh_search) = new_node 72 0.6 0.5 # [visited_node (-1) 5 2 []]
   \<and> get_visits (new_node 72 0.6 0.5) = 0
   \<and> get_best_move example_env 0 fresh_search = Some (72, fresh_search)
   \<and> get_best_move example_env 1 fresh_search = Some (72, fresh_search)"
proof -
  have h: "(if int (get_movenum (m_rootstate fresh_search)) < cfg_random_cnt example_env
       then randomize_first_proportionally example_env
              (sort_children example_env (get_to_move (m_rootstate fresh_search))
                (get_children (m_root fresh_search)))
       else sort_children example_env (get_to_move (m_rootstate fresh_search))
              (get_children (m_root fresh_search)))
      = new_node 72 0.6 0.5 # [visited_node (-1) 5 2 []]"
    "get_visits (new_node 72 0.6 0.5) = 0"
    by (simp_all add: fresh_search_def get_visits_def example_defs)
  have r: "fresh_search\<lparr>m_root := UCTNode (data (m_root fresh_search))
      (new_node 72 0.6 0.5 # [visited_node (-1) 5 2 []])\<rparr> = fresh_search"
    by (simp add: fresh_search_def example_defs)
  from unvisited_first_child_returned [OF h, of 0] unvisited_first_child_returned [OF h, of 1]
    h(2) r
  show ?thesis
    by (simp add: h(1) get_move_def) (simp add: fresh_search_def example_defs)
qed

text \<open>
  C6. Without NOPASS and without \<^verbatim>\<open>cfg_dumbpass\<close>, when the first child after
  the sort is visited and is not the pass, and the opponent's last move was a
  pass: if the final score does not make passing lose for the side to move,
  \<^verbatim>\<open>get_best_move\<close> returns PASS, the resignation test being skipped; if
  passing would lose, the first child's move is kept as the best move, which
  then goes through the resignation test of lines 313-319 with that child's
  evaluation.
\<close>

theorem pass_out_after_opponent_pass:
  fixes env :: "('b, 't) env" and passflag :: int and s :: "('b, 't) UCTSearch"
    and c :: UCTNode and cs :: "UCTNode list"
  defines "color \<equiv> get_to_move (m_rootstate s)"
  defines "sorted_cs \<equiv> sort_children env color (get_children (m_root s))"
  defines "ordered \<equiv>
    (if int (get_movenum (m_rootstate s)) < cfg_random_cnt env
     then randomize_first_proportionally env sorted_cs else sorted_cs)"
  defines "s2 \<equiv> s\<lparr>m_root := UCTNode (data (m_root s)) ordered\<rparr>"
  defines "score \<equiv> final_score env (m_rootstate s)"
  defines "passing_loses \<equiv> (score > 0 \<and> color = WHITE) \<or> (score < 0 \<and> color = BLACK)"
  assumes "passflag AND NOPASS env = 0"
    and "\<not> cfg_dumbpass env"
    and "ordered = c # cs"
    and "get_move c \<noteq> PASS env"
    and "get_visits c \<noteq> 0"
    and "get_last_move (m_rootstate s) = PASS env"
  shows "get_best_move env passflag s =
    Some (if passing_loses
          then (if should_resign env s2 passflag (get_eval env color c) then RESIGN env
                else get_move c)
          else PASS env, s2)"
  using assms(7-) unfolding ordered_def sorted_cs_def color_def s2_def score_def passing_loses_def
  by (auto simp add: get_best_move_def Let_def get_first_child_def first_visit_def split: if_splits)

theorem pass_out_after_opponent_pass_witness:
  "(0::int) AND NOPASS example_env = 0 \<and> (2::int) AND NOPASS example_env = 0
   \<and> \<not> cfg_dumbpass example_env
   \<and> get_last_move (m_rootstate (pass_search WHITE)) = PASS example_env
   \<and> get_last_move (m_rootstate (pass_search BLACK)) = PASS example_env
   \<and> final_score example_env (m_rootstate (pass_search WHITE)) < 0
   \<and> map_option fst (get_best_move example_env 0 (pass_search WHITE)) = Some (-1)
   \<and> map_option fst (get_best_move example_env 2 (pass_search BLACK)) = Some 72"
proof -
  have c: "(if int (get_movenum (m_rootstate (pass_search c))) < cfg_random_cnt example_env
       then randomize_first_proportionally example_env
              (sort_children example_env (get_to_move (m_rootstate (pass_search c)))
                (get_children (m_root (pass_search c))))
       else sort_children example_env (get_to_move (m_rootstate (pass_search c)))
              (get_children (m_root (pass_search c))))
      = visited_node 72 400 8 [] # [visited_node (-1) 199 4 []]" for c
    by (simp add: pass_search_def example_defs)
  have h: "(0::int) AND NOPASS example_env = 0" "(2::int) AND NOPASS example_env = 0"
    "\<not> cfg_dumbpass example_env"
    "get_move (visited_node 72 400 8 []) \<noteq> PASS example_env"
    "get_visits (visited_node 72 400 8 []) \<noteq> 0"
    "get_last_move (m_rootstate (pass_search c)) = PASS example_env" for c
    by (simp_all add: pass_search_def get_move_def get_visits_def example_defs)
  have f: "final_score example_env (m_rootstate (pass_search c)) < 0"
    "get_to_move (m_rootstate (pass_search c)) = c"
    "\<not> 0 < final_score example_env (m_rootstate (pass_search c))" for c
    by (simp_all add: pass_search_def example_defs)
  have n: "\<not> should_resign example_env s 2 x" for s x
    by (simp add: should_resign_def example_defs)
  have v: "PASS example_env = -1" "get_move (visited_node 72 400 8 []) = 72"
    by (simp_all add: get_move_def example_defs)
  have w: "map_option fst (get_best_move example_env 0 (pass_search WHITE)) = Some (-1)"
    using pass_out_after_opponent_pass [OF h(1) h(3) c h(4) h(5) h(6), of WHITE]
    by (simp add: f v(1))
  have b: "map_option fst (get_best_move example_env 2 (pass_search BLACK)) = Some 72"
    using pass_out_after_opponent_pass [OF h(2) h(3) c h(4) h(5) h(6), of BLACK]
    by (simp add: f n v(2))
  from h f w b show ?thesis by simp
qed


end
